theory Spec2Isabelle
  imports Main
begin

section \<open>Python values and exceptions\<close>

text \<open>
  The classes of the exceptions that \<^verbatim>\<open>pubMedArticleGrabber.py\<close> raises, catches or lets
  through. An exception value carries its class and the text that \<^verbatim>\<open>str(e)\<close> returns.
\<close>

datatype exc_class =
    IndexError | KeyError | TypeError | NameError | ValueError
  | AttributeError | UnboundLocalError | AssertionError | EmptyDataError
  | FileNotFoundError | FileExistsError
  | HTTPError | RequestsHTTPError | URLError | CertificateError | SSLError | TimeoutError
  | RequestsTimeout | RequestsConnectionError | ChunkedEncodingError | TooManyRedirects
  | ConnectionResetError | UnicodeDecodeError | UnicodeEncodeError | RuntimeError
  | OtherError

datatype py_exception = Exc exc_class string

text \<open>
  An \<^verbatim>\<open>except\<close> clause catches the classes it lists and their subclasses. Among the
  classes above, \<^verbatim>\<open>urllib\<close>'s \<^verbatim>\<open>HTTPError\<close> is a \<^verbatim>\<open>URLError\<close>, the \<^verbatim>\<open>SSLError\<close> of
  \<^verbatim>\<open>requests\<close> is a connection error, \<^verbatim>\<open>UnboundLocalError\<close> is a \<^verbatim>\<open>NameError\<close>, and the two
  Unicode errors are \<^verbatim>\<open>ValueError\<close>s.
\<close>

definition subclass_of :: "exc_class \<Rightarrow> exc_class \<Rightarrow> bool" where
  "subclass_of c b =
     (c = b \<or>
      (c, b) \<in> set [(HTTPError, URLError), (SSLError, RequestsConnectionError),
                    (UnboundLocalError, NameError), (UnicodeDecodeError, ValueError),
                    (UnicodeEncodeError, ValueError)])"

definition caught_by :: "exc_class list \<Rightarrow> exc_class \<Rightarrow> bool" where
  "caught_by classes c = list_ex (subclass_of c) classes"

definition newline :: char where
  "newline = CHR 0x0A"

definition dquote :: char where
  "dquote = CHR 0x22"

text \<open>Python's \<^verbatim>\<open>xs[0]\<close> and \<^verbatim>\<open>xs[-1]\<close>: \<^verbatim>\<open>IndexError\<close> on the empty sequence.\<close>

definition first_item :: "'a list \<Rightarrow> py_exception + 'a" where
  "first_item xs =
     (case xs of [] \<Rightarrow> Inl (Exc IndexError ''list index out of range'') | x # _ \<Rightarrow> Inr x)"

definition last_item :: "'a list \<Rightarrow> py_exception + 'a" where
  "last_item xs =
     (if xs = [] then Inl (Exc IndexError ''list index out of range'') else Inr (last xs))"

text \<open>\<^verbatim>\<open>s[0]\<close> on a string is the string of its first character.\<close>

definition first_char :: "string \<Rightarrow> py_exception + string" where
  "first_char s =
     (case s of [] \<Rightarrow> Inl (Exc IndexError ''string index out of range'') | c # _ \<Rightarrow> Inr [c])"

text \<open>\<^verbatim>\<open>sub in s\<close> on strings.\<close>

fun py_in :: "string \<Rightarrow> string \<Rightarrow> bool" where
  "py_in sub [] = (sub = [])"
| "py_in sub (c # cs) = (take (length sub) (c # cs) = sub \<or> py_in sub cs)"

text \<open>
  \<^verbatim>\<open>s.split(sep)\<close> for a non-empty separator: the pieces between the occurrences of the
  separator, found from the left without overlap. The second argument collects the
  characters of the current piece.
\<close>

fun split_from :: "string \<Rightarrow> string \<Rightarrow> string \<Rightarrow> string list" where
  "split_from sep cur [] = [cur]"
| "split_from sep cur (c # cs) =
     (if sep \<noteq> [] \<and> take (length sep) (c # cs) = sep
      then cur # split_from sep [] (drop (length sep - 1) cs)
      else split_from sep (cur @ [c]) cs)"

definition py_split :: "string \<Rightarrow> string \<Rightarrow> string list" where
  "py_split sep s = split_from sep [] s"

text \<open>\<^verbatim>\<open>str.lower\<close> on ASCII text (identifiers and URLs are ASCII).\<close>

definition lower_char :: "char \<Rightarrow> char" where
  "lower_char c =
     (case map_of (zip ''ABCDEFGHIJKLMNOPQRSTUVWXYZ'' ''abcdefghijklmnopqrstuvwxyz'') c of
        None \<Rightarrow> c | Some l \<Rightarrow> l)"

definition lower :: "string \<Rightarrow> string" where
  "lower s = map lower_char s"

text \<open>Truth value of an optional string: \<^verbatim>\<open>None\<close> and the empty string are false.\<close>

definition truthy :: "string option \<Rightarrow> bool" where
  "truthy v = (case v of None \<Rightarrow> False | Some s \<Rightarrow> s \<noteq> [])"

section \<open>URL normaliser: \<^verbatim>\<open>getCambridgeURL\<close>\<close>

text \<open>
  \<^verbatim>\<open>re.findall('10.1017/s(.+)', doi)[-1]\<close>. The pattern is nine atoms followed by the
  group \<^verbatim>\<open>(.+)\<close>. An unescaped dot matches every character but a newline, also the
  dot written between \<^verbatim>\<open>10\<close> and \<^verbatim>\<open>1017\<close>.
\<close>

datatype atom = Lit char | AnyChar

fun atom_ok :: "atom \<Rightarrow> char \<Rightarrow> bool" where
  "atom_ok (Lit a) c = (c = a)"
| "atom_ok AnyChar c = (c \<noteq> newline)"

text \<open>Match a sequence of atoms at the start of a string; the result is the rest.\<close>

fun atoms_prefix :: "atom list \<Rightarrow> string \<Rightarrow> string option" where
  "atoms_prefix [] s = Some s"
| "atoms_prefix (a # as) [] = None"
| "atoms_prefix (a # as) (c # cs) = (if atom_ok a c then atoms_prefix as cs else None)"

definition cambridge_pat :: "atom list" where
  "cambridge_pat =
     [Lit CHR ''1'', Lit CHR ''0'', AnyChar, Lit CHR ''1'', Lit CHR ''0'', Lit CHR ''1'',
      Lit CHR ''7'', Lit CHR ''/'', Lit CHR ''s'']"

lemma atoms_prefix_length:
  "atoms_prefix as s = Some r \<Longrightarrow> length r + length as = length s"
  by (induction as s rule: atoms_prefix.induct) (auto split: if_splits)

text \<open>
  \<^verbatim>\<open>re.findall\<close> for a pattern of atoms followed by the group \<^verbatim>\<open>(.+)\<close>. It scans from
  the left. At a position where the atoms match and at least one character other than a
  line break follows, the greedy group takes the rest of the line and scanning resumes
  behind it; anywhere else scanning moves on by one character.
\<close>

function findall_tail :: "atom list \<Rightarrow> string \<Rightarrow> string list" where
  "findall_tail pat [] = []"
| "findall_tail pat (c # cs) =
     (case atoms_prefix pat (c # cs) of
        None \<Rightarrow> findall_tail pat cs
      | Some r \<Rightarrow>
          (let g = takeWhile (\<lambda>x. x \<noteq> newline) r
           in if g = [] then findall_tail pat cs
              else g # findall_tail pat (drop (length g) r)))"
  by pat_completeness auto
termination
proof (relation "measure (\<lambda>(pat, s). length s)", goal_cases)
  case 1
  show ?case by simp
next
  case (2 pat c cs)
  show ?case by simp
next
  case (3 pat c cs r g)
  show ?case by simp
next
  case (4 pat c cs r g)
  from atoms_prefix_length [OF 4(1)] have "length r \<le> Suc (length cs)" by simp
  moreover from 4(2,3) have "g \<noteq> []" by simp
  moreover from 4(2) have "length g \<le> length r" by (simp add: length_takeWhile_le)
  ultimately show ?case by (cases g) simp_all
qed

definition cambridge_template :: string where
  "cambridge_template =
     ''https://www.cambridge.org/core/services/aop-cambridge-core/content/view/S''"

definition getCambridgeURL :: "string \<Rightarrow> py_exception + string" where
  "getCambridgeURL doi =
     (case last_item (findall_tail cambridge_pat doi) of
        Inl e \<Rightarrow> Inl e
      | Inr tail \<Rightarrow> Inr (cambridge_template @ tail))"

section \<open>Persistent registries\<close>

text \<open>
  The file system the program works on. Downloaded artifacts are files of bytes, written
  with \<^verbatim>\<open>open(name, 'wb')\<close>. The registries are CSV files; they are kept as the list of
  rows that \<^verbatim>\<open>csv.reader\<close> yields, a row being the list of its cells, and a path holds
  either an artifact or a registry. Directories are not modelled: every directory a file
  needs is created before the file is opened.
\<close>

record fs =
  files :: "string \<rightharpoonup> string"
  tables :: "string \<rightharpoonup> string list list"

definition isfile :: "fs \<Rightarrow> string \<Rightarrow> bool" where
  "isfile st path = (files st path \<noteq> None \<or> tables st path \<noteq> None)"

text \<open>\<^verbatim>\<open>csv.writer(open(path, 'a')).writerow(row)\<close>: the file is created when missing.\<close>

definition append_row :: "fs \<Rightarrow> string \<Rightarrow> string list \<Rightarrow> fs" where
  "append_row st path row =
     st\<lparr>tables := (tables st)(path \<mapsto> (case tables st path of None \<Rightarrow> [] | Some rs \<Rightarrow> rs) @ [row])\<rparr>"

definition checkHeaders :: "fs \<Rightarrow> string \<Rightarrow> string list option \<Rightarrow> py_exception + fs" where
  "checkHeaders st csvFileName headers =
     (if headers = None \<and> \<not> isfile st (csvFileName @ ''.csv'')
      then Inl (Exc FileExistsError ''We need the headers to crearte the file for the first time.'')
      else if headers \<noteq> None \<and> headers \<noteq> Some [] \<and> \<not> isfile st (csvFileName @ ''.csv'')
      then Inr (append_row st (csvFileName @ ''.csv'') (the headers))
      else Inr st)"

text \<open>
  \<^verbatim>\<open>writecsvRow\<close> appends the row without looking at what the file holds. When the
  text writer cannot encode the row (\<open>encodable\<close> is false) nothing has been written, and
  the same row is appended through the UTF-8 writer.
\<close>

definition writecsvRow ::
  "(string list \<Rightarrow> bool) \<Rightarrow> fs \<Rightarrow> string \<Rightarrow> string list \<Rightarrow> string list option \<Rightarrow> py_exception + fs" where
  "writecsvRow encodable st fileName row headers =
     (case checkHeaders st fileName headers of
        Inl e \<Rightarrow> Inl e
      | Inr st1 \<Rightarrow>
          (let containsUnicode = \<not> encodable row;
               st2 = (if containsUnicode then st1 else append_row st1 (fileName @ ''.csv'') row)
           in if containsUnicode then Inr (append_row st2 (fileName @ ''.csv'') row) else Inr st2))"

section \<open>Identifier translator: \<^verbatim>\<open>pmidTopmcid\<close>\<close>

text \<open>
  What \<^verbatim>\<open>Entrez.read\<close> returns for an \<^verbatim>\<open>elink\<close> query, as far as the code reads it:
  a list of link sets; of a link set its \<^verbatim>\<open>'LinkSetDb'\<close> list; of each entry of that
  its \<^verbatim>\<open>'Link'\<close> list; of each link its \<^verbatim>\<open>'Id'\<close>, a string.
\<close>

type_synonym link = string
type_synonym linkSetDb = "link list"
type_synonym linkSet = "linkSetDb list"

definition first_link_id :: "linkSet \<Rightarrow> py_exception + string" where
  "first_link_id lsdb =
     (case first_item lsdb of
        Inl e \<Rightarrow> Inl e
      | Inr db \<Rightarrow> first_item db)"

definition pmcid_of :: "linkSet list \<Rightarrow> py_exception + string" where
  "pmcid_of result =
     (case first_item result of
        Inl e \<Rightarrow> Inl e
      | Inr r0 \<Rightarrow>
          if length r0 = 1 then first_link_id r0
          else if r0 = [] then Inr ''NoPMCID''
          else (case first_link_id r0 of
                  Inl e \<Rightarrow> Inl e
                | Inr ident \<Rightarrow>
                    (case first_char ident of
                       Inl e \<Rightarrow> Inl e
                     | Inr c \<Rightarrow> Inr (c @ ''MoreThanPMCID''))))"

text \<open>
  The \<^verbatim>\<open>for\<close> loop over a copy of \<open>pmids\<close>: each identifier is queried, its row is
  appended to the registry and its first occurrence is removed from \<open>pmids\<close>. The query
  \<open>elink\<close> stands for \<^verbatim>\<open>Entrez.read(Entrez.elink(...))\<close>. The result is the list that is
  left and the file system, or the exception that ended the loop.
\<close>

fun pmcid_pass ::
  "(string \<Rightarrow> py_exception + linkSet list) \<Rightarrow> (string list \<Rightarrow> bool) \<Rightarrow> string \<Rightarrow>
   string list \<Rightarrow> string list \<Rightarrow> fs \<Rightarrow> py_exception + (string list \<times> fs)" where
  "pmcid_pass elink encodable csvFile [] pmids st = Inr (pmids, st)"
| "pmcid_pass elink encodable csvFile (pmid # todo) pmids st =
     (case elink pmid of
        Inl e \<Rightarrow> Inl e
      | Inr result \<Rightarrow>
          (case pmcid_of result of
             Inl e \<Rightarrow> Inl e
           | Inr pmcid \<Rightarrow>
               (case writecsvRow encodable st csvFile [pmid, pmcid] (Some [''PMID'', ''PMCID'']) of
                  Inl e \<Rightarrow> Inl e
                | Inr st' \<Rightarrow> pmcid_pass elink encodable csvFile todo (remove1 pmid pmids) st')))"

lemma pmcid_pass_rest:
  "pmcid_pass elink encodable csvFile todo (todo @ rest) st = Inr (pmids', st') \<Longrightarrow> pmids' = rest"
proof (induction todo arbitrary: st)
  case Nil
  then show ?case by simp
next
  case (Cons pmid todo)
  then show ?case by (auto split: sum.splits)
qed

text \<open>
  The enclosing \<^verbatim>\<open>while temp.copy()\<close>: it runs the pass as long as \<open>pmids\<close> is not
  empty. A pass that returns has removed every identifier, so the loop body runs once.
\<close>

function pmcid_loop ::
  "(string \<Rightarrow> py_exception + linkSet list) \<Rightarrow> (string list \<Rightarrow> bool) \<Rightarrow> string \<Rightarrow>
   string list \<Rightarrow> fs \<Rightarrow> py_exception + fs" where
  "pmcid_loop elink encodable csvFile pmids st =
     (if pmids = [] then Inr st
      else (case pmcid_pass elink encodable csvFile pmids pmids st of
              Inl e \<Rightarrow> Inl e
            | Inr (pmids', st') \<Rightarrow> pmcid_loop elink encodable csvFile pmids' st'))"
  by pat_completeness auto
termination
proof (relation "measure (\<lambda>(elink, encodable, csvFile, pmids, st). length pmids)", goal_cases)
  case 1
  show ?case by simp
next
  case (2 elink encodable csvFile pmids st x2 pmids' st')
  from 2(2,3) have "pmcid_pass elink encodable csvFile pmids (pmids @ []) st = Inr (pmids', st')"
    by simp
  then have "pmids' = []" by (rule pmcid_pass_rest)
  with 2(1) show ?case by simp
qed

text \<open>
  \<^verbatim>\<open>pmidTopmcid\<close> called with a Python list of identifier strings. Before the loop the
  code inspects \<^verbatim>\<open>pmids[0]\<close> (lines 247 to 251) to see whether the list holds pairs; only
  \<^verbatim>\<open>TypeError\<close> is caught there, so on an empty list the \<^verbatim>\<open>IndexError\<close> of \<^verbatim>\<open>pmids[0]\<close>
  leaves the function. The first element of a list of strings is a string, not a list, so
  the list is used as it is.
\<close>

definition pmidTopmcid ::
  "(string \<Rightarrow> py_exception + linkSet list) \<Rightarrow> (string list \<Rightarrow> bool) \<Rightarrow> string \<Rightarrow>
   string list \<Rightarrow> fs \<Rightarrow> py_exception + fs" where
  "pmidTopmcid elink encodable csvFile pmids st =
     (case first_item pmids of
        Inl e \<Rightarrow> Inl e
      | Inr pmid0 \<Rightarrow> pmcid_loop elink encodable csvFile pmids st)"

section \<open>Content classifier: \<^verbatim>\<open>getExtension\<close> and \<^verbatim>\<open>decideExtension\<close>\<close>

text \<open>
  \<^verbatim>\<open>re.findall('.+\.([a-zA-Z]{3,10})"?$', filePathOrURL)\<close>, read the way the backtracking
  matcher runs it. \<^verbatim>\<open>$\<close> holds at the end of the string and before a line break that
  ends the string.
\<close>

definition is_letter :: "char \<Rightarrow> bool" where
  "is_letter c = (c \<in> set ''abcdefghijklmnopqrstuvwxyzABCDEFGHIJKLMNOPQRSTUVWXYZ'')"

definition at_end :: "string \<Rightarrow> bool" where
  "at_end r = (r = [] \<or> r = [newline])"

text \<open>\<^verbatim>\<open>"?$\<close>: the optional quote is tried first, then its absence.\<close>

definition quote_end :: "string \<Rightarrow> bool" where
  "quote_end r = ((case r of [] \<Rightarrow> False | c # r' \<Rightarrow> c = dquote \<and> at_end r') \<or> at_end r)"

text \<open>
  \<^verbatim>\<open>\.([a-zA-Z]{3,10})"?$\<close> at the start of a string: a dot, then between three and ten
  letters, the longest run first, such that the rest matches \<^verbatim>\<open>"?$\<close>. The result is the
  group.
\<close>

definition ext_tail :: "string \<Rightarrow> string option" where
  "ext_tail r =
     (case r of
        [] \<Rightarrow> None
      | c # r' \<Rightarrow>
          if c \<noteq> CHR ''.'' then None
          else (case filter (\<lambda>m. quote_end (drop m r'))
                       (rev [3..<Suc (min 10 (length (takeWhile is_letter r')))]) of
                  [] \<Rightarrow> None
                | m # _ \<Rightarrow> Some (take m r')))"

text \<open>
  The whole pattern at the start of a string: \<^verbatim>\<open>.+\<close> takes one or more characters of the
  line, the longest stretch first, such that the rest matches.
\<close>

definition ext_at :: "string \<Rightarrow> string option" where
  "ext_at s =
     (case List.map_filter (\<lambda>j. ext_tail (drop j s))
             (rev [1..<Suc (length (takeWhile (\<lambda>c. c \<noteq> newline) s))]) of
        [] \<Rightarrow> None
      | g # _ \<Rightarrow> Some g)"

text \<open>
  The leftmost match. A match ends where the string ends (or before its final line break),
  so no second match follows it and the last element of the \<^verbatim>\<open>findall\<close> list is this one.
\<close>

fun search_ext :: "string \<Rightarrow> string option" where
  "search_ext [] = None"
| "search_ext (c # cs) = (case ext_at (c # cs) of None \<Rightarrow> search_ext cs | Some g \<Rightarrow> Some g)"

text \<open>\<^verbatim>\<open>re.findall\<close> on \<^verbatim>\<open>None\<close> raises \<^verbatim>\<open>TypeError\<close>.\<close>

definition getExtension :: "string option \<Rightarrow> py_exception + string option" where
  "getExtension filePathOrURL =
     (case filePathOrURL of
        None \<Rightarrow> Inl (Exc TypeError ''expected string or bytes-like object'')
      | Some s \<Rightarrow> Inr (search_ext s))"

text \<open>
  The argument of \<^verbatim>\<open>decideExtension\<close> is a dictionary from keys to strings or \<^verbatim>\<open>None\<close>.
  A missing key is read as \<^verbatim>\<open>None\<close> (the \<^verbatim>\<open>KeyError\<close> is caught).
\<close>

type_synonym py_dict = "string \<rightharpoonup> string option"

definition dict_get :: "py_dict \<Rightarrow> string \<Rightarrow> string option" where
  "dict_get d k = (case d k of None \<Rightarrow> None | Some v \<Rightarrow> v)"

text \<open>\<^verbatim>\<open>t.split('/')[-1].split(';')[0]\<close>\<close>

definition subtype :: "string \<Rightarrow> py_exception + string option" where
  "subtype t =
     (case last_item (py_split ''/'' t) of
        Inl e \<Rightarrow> Inl e
      | Inr u \<Rightarrow> (case first_item (py_split '';'' u) of Inl e \<Rightarrow> Inl e | Inr v \<Rightarrow> Inr (Some v)))"

definition overrides :: "string \<Rightarrow> string option \<Rightarrow> string option" where
  "overrides url ext =
     (if py_in ''api.elsevier'' url \<and>
         (ext = Some ''plain'' \<or> ext = Some ''htm'' \<or> ext = Some ''html'') then Some ''txt''
      else if ext = Some ''plain'' \<or> ext = Some ''htm'' then Some ''html''
      else if ext = Some ''msword'' then Some ''doc''
      else if ext = Some ''octet-stream'' then Some ''pdf''
      else ext)"

definition decideExtension :: "py_dict \<Rightarrow> py_exception + string option" where
  "decideExtension d =
     (let contentType = dict_get d ''contentType'';
          crContentType = dict_get d ''crContentType'';
          contentDisposition = dict_get d ''contentDisposition'';
          url = dict_get d ''url''
      in case (if truthy contentType then subtype (the contentType)
               else if truthy crContentType \<and> crContentType \<noteq> Some ''unspecified''
               then subtype (the crContentType)
               else if truthy contentDisposition then getExtension contentDisposition
               else (case getExtension url of
                       Inl e \<Rightarrow> Inl e
                     | Inr g \<Rightarrow> if truthy g then getExtension url else Inr None)) of
           Inl e \<Rightarrow> Inl e
         | Inr ext \<Rightarrow>
             (case url of
                None \<Rightarrow> Inl (Exc TypeError ''argument of type NoneType is not iterable'')
              | Some u \<Rightarrow> Inr (overrides u ext)))"

section \<open>Download dispatcher\<close>

text \<open>
  \<^verbatim>\<open>multireplace\<close> with the table of \<^verbatim>\<open>createFile\<close>, whose keys and values are single
  characters: every character with an entry is replaced.
\<close>

definition multireplace :: "string \<Rightarrow> (char \<times> char) list \<Rightarrow> string" where
  "multireplace s replacements =
     map (\<lambda>c. case map_of replacements c of None \<Rightarrow> c | Some r \<Rightarrow> r) s"

definition notAllowedCharReplacements :: "(char \<times> char) list" where
  "notAllowedCharReplacements =
     [(CHR ''/'', CHR ''-''), (CHR 0x5C, CHR ''-''), (CHR ''>'', CHR ''}''), (CHR ''<'', CHR ''{''),
      (CHR '':'', CHR ''_''), (CHR ''?'', CHR ''!''), (dquote, CHR 0x27), (CHR ''*'', CHR ''+''),
      (CHR ''|'', CHR ''$'')]"

definition createFile :: "string \<Rightarrow> string option \<Rightarrow> string" where
  "createFile doi ext =
     (if truthy ext
      then ''full text/doi3/'' @ the ext @ ''/'' @ multireplace doi notAllowedCharReplacements
           @ ''.'' @ the ext
      else ''full text/doi3/other/'' @ multireplace doi notAllowedCharReplacements)"

text \<open>
  What a transport returns for a GET: the two headers the code reads (\<^verbatim>\<open>None\<close> when
  absent) and the body.
\<close>

record response =
  content_type :: "string option"
  content_disposition :: "string option"
  content :: string

text \<open>A cell of a CSV row: \<^verbatim>\<open>None\<close> is written as the empty string.\<close>

definition cell :: "string option \<Rightarrow> string" where
  "cell v = (case v of None \<Rightarrow> [] | Some s \<Rightarrow> s)"

text \<open>
  The part both download paths share, from the measured size of the body on: the file is
  written only if the measured size less 33 exceeds the size of the file on disk (0 when
  there is none); then the row is appended to the registry of downloadable items.
  \<open>getsizeof\<close> stands for \<^verbatim>\<open>sys.getsizeof\<close>. The result is the file system and the
  exception raised on the way, if any.
\<close>

definition store ::
  "(string \<Rightarrow> int) \<Rightarrow> (string list \<Rightarrow> bool) \<Rightarrow> fs \<Rightarrow> string \<Rightarrow> string \<Rightarrow> string option \<Rightarrow>
   string \<Rightarrow> fs \<times> py_exception option" where
  "store getsizeof encodable st doi url ext body =
     (let contentSize = getsizeof body;
          fileName = createFile doi ext;
          fileSize = (case files st fileName of None \<Rightarrow> 0 | Some old \<Rightarrow> int (length old));
          st1 = (if contentSize - 33 > fileSize
                 then st\<lparr>files := (files st)(fileName \<mapsto> body)\<rparr> else st)
      in case writecsvRow encodable st1 ''full text/doi/downloadable dois'' [doi, url, cell ext]
                (Some [''DOI'', ''URL'', ''EXT'']) of
           Inl e \<Rightarrow> (st1, Some e)
         | Inr st2 \<Rightarrow> (st2, None))"

text \<open>
  The \<^verbatim>\<open>except\<close> clauses: an exception of a listed class becomes a row of the bad-URL
  registry; any other exception is raised again. The result is the file system and the
  exception that leaves the function, if any. What was written before an exception stays.
\<close>

definition handle_download ::
  "exc_class list \<Rightarrow> (string list \<Rightarrow> bool) \<Rightarrow> fs \<Rightarrow> string \<Rightarrow> string \<Rightarrow> py_exception \<Rightarrow>
   fs \<times> py_exception option" where
  "handle_download caught encodable st doi url e =
     (case e of Exc cls msg \<Rightarrow>
        if caught_by caught cls
        then (case writecsvRow encodable st ''full text/doi/bad urls'' [doi, url, msg]
                     (Some [''DOI'', ''URL'', ''ERROR'']) of
                Inl e' \<Rightarrow> (st, Some e')
              | Inr st' \<Rightarrow> (st', None))
        else (st, Some e))"

definition requests_caught :: "exc_class list" where
  "requests_caught =
     [RequestsHTTPError, RequestsTimeout, SSLError, RequestsConnectionError, ChunkedEncodingError]"

definition urllib_caught :: "exc_class list" where
  "urllib_caught = [HTTPError, TimeoutError, URLError, ConnectionResetError, CertificateError]"

definition requests_dict :: "response \<Rightarrow> string \<Rightarrow> py_dict" where
  "requests_dict r url =
     [''contentType'' \<mapsto> content_type r,
      ''contentDisposition'' \<mapsto> content_disposition r,
      ''url'' \<mapsto> Some url]"

text \<open>The second transport reads the content type only.\<close>

definition urllib_dict :: "response \<Rightarrow> string \<Rightarrow> py_dict" where
  "urllib_dict r url = [''contentType'' \<mapsto> content_type r, ''url'' \<mapsto> Some url]"

definition downloadViaRequests ::
  "(string \<Rightarrow> int) \<Rightarrow> (string list \<Rightarrow> bool) \<Rightarrow> fs \<Rightarrow> string \<Rightarrow> string \<Rightarrow>
   py_exception + response \<Rightarrow> fs \<times> py_exception option" where
  "downloadViaRequests getsizeof encodable st doi url got =
     (case got of
        Inl e \<Rightarrow> handle_download requests_caught encodable st doi url e
      | Inr r \<Rightarrow>
          (case decideExtension (requests_dict r url) of
             Inl e \<Rightarrow> handle_download requests_caught encodable st doi url e
           | Inr ext \<Rightarrow>
               (case store getsizeof encodable st doi url ext (content r) of
                  (st', None) \<Rightarrow> (st', None)
                | (st', Some e) \<Rightarrow> handle_download requests_caught encodable st' doi url e)))"

definition downloadViaUrlLib ::
  "(string \<Rightarrow> int) \<Rightarrow> (string list \<Rightarrow> bool) \<Rightarrow> fs \<Rightarrow> string \<Rightarrow> string \<Rightarrow>
   py_exception + response \<Rightarrow> fs \<times> py_exception option" where
  "downloadViaUrlLib getsizeof encodable st doi url got =
     (case got of
        Inl e \<Rightarrow> handle_download urllib_caught encodable st doi url e
      | Inr r \<Rightarrow>
          (case decideExtension (urllib_dict r url) of
             Inl e \<Rightarrow> handle_download urllib_caught encodable st doi url e
           | Inr ext \<Rightarrow>
               (case store getsizeof encodable st doi url ext (content r) of
                  (st', None) \<Rightarrow> (st', None)
                | (st', Some e) \<Rightarrow> handle_download urllib_caught encodable st' doi url e)))"

section \<open>Reading a registry back: \<^verbatim>\<open>csvTodict\<close>\<close>




section \<open>Link resolver: the resolution loop of \<^verbatim>\<open>grabViaCrossref\<close>\<close>

text \<open>
  \<^verbatim>\<open>extractDOI\<close>: the piece behind the last \<^verbatim>\<open>org/\<close>. A split has at least one piece
  (\<open>py_split_not_empty\<close>).
\<close>

definition extractDOI :: "string \<Rightarrow> string" where
  "extractDOI doiLinkOrTag = last (py_split ''org/'' doiLinkOrTag)"

text \<open>
  A metadata record, as far as the code reads it: \<^verbatim>\<open>article['message']['DOI']\<close> and
  \<^verbatim>\<open>article['message']['link']\<close>, which may be missing; a link is the pair of its
  \<^verbatim>\<open>'URL'\<close> and its \<^verbatim>\<open>'content-type'\<close>.
\<close>

record article =
  message_DOI :: string
  message_link :: "(string \<times> string) list option"

text \<open>
  The objects that names are bound to. A Crossref client is its method \<^verbatim>\<open>works(ids=doi)\<close>:
  given the number of queries made before and the identifier, a record or an exception.
  A namespace binds names to objects.
\<close>

datatype py_object =
    Module | Class | Function
  | Client "nat \<Rightarrow> string \<Rightarrow> py_exception + article"

type_synonym namespace = "string \<rightharpoonup> py_object"

text \<open>
  The names that the module binds at its top level: its imports and its one class. The
  names that every module has (\<^verbatim>\<open>__name__\<close> and the like) and the built-ins are left out;
  none of them is \<^verbatim>\<open>cr\<close>.
\<close>

definition module_globals :: namespace where
  "module_globals = map_of
     [(''ET'', Module), (''os'', Module), (''sys'', Module), (''time'', Module),
      (''pickle'', Module), (''re'', Module), (''csv'', Module), (''unicodecsv'', Module),
      (''pd'', Module), (''requests'', Module), (''urlopen'', Function), (''Request'', Class),
      (''URLError'', Class), (''HTTPError'', Class), (''CertificateError'', Class),
      (''defaultdict'', Class), (''Entrez'', Module), (''Crossref'', Class),
      (''PubMedArticleGrabber'', Class)]"

text \<open>
  \<^verbatim>\<open>__init__\<close> stores \<^verbatim>\<open>self.pmids\<close> on the instance. The client it builds is bound to
  the local name \<^verbatim>\<open>cr\<close>, which is gone when \<^verbatim>\<open>__init__\<close> returns: neither the instance nor
  the global namespace receives it. \<open>Crossref\<close> stands for the constructor of the client.
\<close>

record grabber =
  self_pmids :: "string list"

definition init ::
  "(string \<Rightarrow> py_object) \<Rightarrow> namespace \<Rightarrow> string list \<Rightarrow> string \<Rightarrow> grabber \<times> namespace" where
  "init Crossref globals pmidsListOrCSVfile email =
     (let cr = Crossref email in (\<lparr>self_pmids = pmidsListOrCSVfile\<rparr>, globals))"

text \<open>Reading a name that the function does not assign: the global namespace decides.\<close>

definition lookup :: "namespace \<Rightarrow> string \<Rightarrow> py_exception + py_object" where
  "lookup globals name =
     (case globals name of
        None \<Rightarrow> Inl (Exc NameError (''name '' @ name @ '' is not defined''))
      | Some obj \<Rightarrow> Inr obj)"

text \<open>What the loop prints.\<close>

datatype printed = Remaining nat | Printed string

text \<open>
  The variables of the loop. The Python sets are lists without repetition, in the order in
  which the set is iterated; \<open>lenOfIn\<close> is unbound (\<open>None\<close>) before the first pass;
  \<open>calls\<close> counts the queries made.
\<close>

record resolver =
  dois :: "string list"
  articles :: "article list"
  notFounddois :: "string list"
  firstTime :: bool
  lenOfIn :: "nat option"
  calls :: nat
  out :: "printed list"

definition crossref_caught :: "exc_class list" where
  "crossref_caught =
     [HTTPError, RequestsHTTPError, URLError, CertificateError, SSLError, TimeoutError]"

text \<open>
  The \<^verbatim>\<open>for\<close> loop over the pending identifiers. The result is the state and the exception
  that leaves the loop, if any.
\<close>

fun query_all :: "namespace \<Rightarrow> string list \<Rightarrow> resolver \<Rightarrow> resolver \<times> py_exception option" where
  "query_all globals [] st = (st, None)"
| "query_all globals (doi # todo) st =
     (case lookup globals ''cr'' of
        Inl e \<Rightarrow> (st, Some e)
      | Inr (Client works) \<Rightarrow>
          (case works (calls st) doi of
             Inr a \<Rightarrow>
               query_all globals todo (st\<lparr>articles := articles st @ [a], calls := Suc (calls st)\<rparr>)
           | Inl (Exc cls msg) \<Rightarrow>
               if caught_by crossref_caught cls
               then if py_in ''Not Found'' msg
                    then query_all globals todo
                           (st\<lparr>notFounddois := List.insert doi (notFounddois st),
                               calls := Suc (calls st)\<rparr>)
                    else (st\<lparr>calls := Suc (calls st), out := out st @ [Printed doi]\<rparr>,
                          Some (Exc cls msg))
               else (st\<lparr>calls := Suc (calls st)\<rparr>, Some (Exc cls msg)))
      | Inr _ \<Rightarrow> (st, Some (Exc AttributeError ''works'')))"

text \<open>
  The head of a pass: the identifiers already collected or not found are taken out of
  \<open>dois\<close>, all compared in lower case.
\<close>

definition collecteddois :: "resolver \<Rightarrow> string list" where
  "collecteddois st =
     remdups (map (\<lambda>i. lower (extractDOI i)) (remdups (map message_DOI (articles st))))"

definition filter_processed :: "resolver \<Rightarrow> resolver" where
  "filter_processed st =
     (let collected = collecteddois st;
          notFound = remdups (map (\<lambda>i. lower (extractDOI i)) (notFounddois st));
          lowered = remdups (map lower (dois st))
      in st\<lparr>notFounddois := notFound,
            dois := filter (\<lambda>i. i \<notin> set notFound \<and> i \<notin> set collected) lowered\<rparr>)"

text \<open>How the loop ends: its condition fails, the stall test breaks it, or an exception.\<close>

datatype ending = Finished | Stalled | Raised py_exception

text \<open>
  One pass of the \<^verbatim>\<open>while\<close> body. The first pass stores the number of pending
  identifiers in \<open>lenOfIn\<close>; a later pass compares its number with that stored value and
  breaks when they are equal. \<open>lenOfIn\<close> is assigned nowhere else. The result is the state
  and how the loop ends in this pass, if it does.
\<close>

definition pass :: "namespace \<Rightarrow> resolver \<Rightarrow> resolver \<times> ending option" where
  "pass globals st =
     (let st1 = filter_processed st;
          stalled = (\<not> firstTime st1 \<and> Some (length (dois st1)) = lenOfIn st1);
          st2 = (if firstTime st1
                 then st1\<lparr>lenOfIn := Some (length (dois st1)), firstTime := False\<rparr>
                 else st1)
      in if stalled
         then (st2\<lparr>out := out st2 @ [Remaining (length (dois st2))]\<rparr>, Some Stalled)
         else (case query_all globals (dois st2) st2 of
                 (st3, Some e) \<Rightarrow> (st3, Some (Raised e))
               | (st3, None) \<Rightarrow> (st3, None)))"

text \<open>
  The \<^verbatim>\<open>while(dois)\<close> loop. Each pass costs one unit of fuel; \<open>None\<close> means that the
  fuel ran out before the loop ended.
\<close>

fun resolve :: "nat \<Rightarrow> namespace \<Rightarrow> resolver \<Rightarrow> (resolver \<times> ending) option" where
  "resolve 0 globals st = None"
| "resolve (Suc n) globals st =
     (if dois st = [] then Some (st, Finished)
      else (case pass globals st of
              (st', Some e) \<Rightarrow> Some (st', e)
            | (st', None) \<Rightarrow> resolve n globals st'))"

text \<open>The state after a number of passes.\<close>

fun after_passes :: "nat \<Rightarrow> namespace \<Rightarrow> resolver \<Rightarrow> resolver" where
  "after_passes 0 globals st = st"
| "after_passes (Suc k) globals st = after_passes k globals (fst (pass globals st))"

text \<open>The state in which \<^verbatim>\<open>grabViaCrossref\<close> enters the loop.\<close>

definition start :: "string list \<Rightarrow> article list \<Rightarrow> string list \<Rightarrow> resolver" where
  "start ds arts nf =
     \<lparr>dois = remdups ds, articles = arts, notFounddois = remdups nf, firstTime = True,
      lenOfIn = None, calls = 0, out = []\<rparr>"

text \<open>
  \<^verbatim>\<open>listTocsvRows\<close>: every item becomes a row of one cell, appended to the file, which is
  created when missing. When the text writer fails on a row, the rows before it have been
  written, and all rows are written again through the UTF-8 writer.
\<close>

definition append_rows :: "fs \<Rightarrow> string \<Rightarrow> string list list \<Rightarrow> fs" where
  "append_rows st path rows =
     st\<lparr>tables := (tables st)(path \<mapsto> (case tables st path of None \<Rightarrow> [] | Some rs \<Rightarrow> rs) @ rows)\<rparr>"

definition listTocsvRows :: "(string list \<Rightarrow> bool) \<Rightarrow> fs \<Rightarrow> string list \<Rightarrow> string \<Rightarrow> fs" where
  "listTocsvRows encodable st li fileName =
     (let rows = map (\<lambda>i. [i]) li;
          st1 = append_rows st (fileName @ ''.csv'') (takeWhile encodable rows)
      in if list_all encodable rows then st1 else append_rows st1 (fileName @ ''.csv'') rows)"

text \<open>
  Lines 87 to 116 of \<^verbatim>\<open>grabViaCrossref\<close>: the loop, and behind it the write of the
  identifiers that were not found. An exception leaves the function before the write.
\<close>

definition resolve_and_record ::
  "nat \<Rightarrow> namespace \<Rightarrow> (string list \<Rightarrow> bool) \<Rightarrow> fs \<Rightarrow> resolver \<Rightarrow> (fs \<times> resolver \<times> ending) option" where
  "resolve_and_record fuel globals encodable st0 st =
     (case resolve fuel globals st of
        None \<Rightarrow> None
      | Some (st', Raised e) \<Rightarrow> Some (st0, st', Raised e)
      | Some (st', e) \<Rightarrow>
          Some (listTocsvRows encodable st0
                  (remdups (map (\<lambda>i. lower (extractDOI i)) (notFounddois st')))
                  ''full text/doi/dois notFoundin crossRef'',
                st', e))"

section \<open>Identifier translator: \<^verbatim>\<open>pmidTodoi\<close>\<close>

text \<open>
  The fields of a summary record that \<^verbatim>\<open>pmidEntrezSummaryRecordTodoi\<close> uses; \<open>None\<close> is
  a missing key. \<open>ArticleIds_doi\<close> is \<^verbatim>\<open>summaryRecord['ArticleIds']['doi']\<close>. The key
  \<^verbatim>\<open>'Id'\<close>, which every summary has, is read and not used.
\<close>

record summary =
  DOI :: "string option"
  ArticleIds_doi :: "string option"
  ELocationID :: "string option"

text \<open>\<^verbatim>\<open>s.strip(chars)\<close>\<close>

definition py_strip :: "string \<Rightarrow> string \<Rightarrow> string" where
  "py_strip chars s =
     rev (dropWhile (\<lambda>c. c \<in> set chars) (rev (dropWhile (\<lambda>c. c \<in> set chars) s)))"

text \<open>
  The first of the three fields that is present and not empty; \<^verbatim>\<open>ValueError\<close> when there
  is none.
\<close>

definition pmidEntrezSummaryRecordTodoi :: "summary list \<Rightarrow> py_exception + string" where
  "pmidEntrezSummaryRecordTodoi esummaryRecord =
     (case first_item esummaryRecord of
        Inl e \<Rightarrow> Inl e
      | Inr summaryRecord \<Rightarrow>
          if truthy (DOI summaryRecord) then Inr (the (DOI summaryRecord))
          else if truthy (ArticleIds_doi summaryRecord)
          then Inr (the (ArticleIds_doi summaryRecord))
          else if truthy (map_option (py_strip ''doi: '') (ELocationID summaryRecord))
          then Inr (py_strip ''doi: '' (the (ELocationID summaryRecord)))
          else Inl (Exc ValueError []))"

text \<open>
  The lookup service. \<^verbatim>\<open>Entrez.esummary\<close> returns a handle, named here after the
  identifier it was opened for, or raises. \<^verbatim>\<open>Entrez.read\<close> is given the handle and the
  number of times the handle was read before.
\<close>

datatype handle = Handle string

datatype event = Esummary string | Read handle | Sleep nat

record translator =
  summaryHandle :: "handle option"
  pmid_doi :: "(string \<times> string) list"
  unicodeErrorpmids :: "string list"
  notFoundpmids :: "string list"
  notFounddoi_pmids :: "string list"
  counter :: nat
  disk :: fs
  events :: "event list"

text \<open>\<^verbatim>\<open>mydict[k] = v\<close> on a dictionary kept as the list of its items.\<close>

fun dict_set :: "(string \<times> string) list \<Rightarrow> string \<Rightarrow> string \<Rightarrow> (string \<times> string) list" where
  "dict_set [] k v = [(k, v)]"
| "dict_set ((k', v') # items) k v =
     (if k' = k then (k, v) # items else (k', v') # dict_set items k v)"

text \<open>
  \<^verbatim>\<open>dictTocsv\<close> for string values: one row per item; the rows that the text writer
  cannot encode are written behind the others.
\<close>

definition dictTocsv ::
  "(string list \<Rightarrow> bool) \<Rightarrow> fs \<Rightarrow> (string \<times> string) list \<Rightarrow> string \<Rightarrow> string list option \<Rightarrow>
   py_exception + fs" where
  "dictTocsv encodable st mydict csvFileName headers =
     (case checkHeaders st csvFileName headers of
        Inl e \<Rightarrow> Inl e
      | Inr st1 \<Rightarrow>
          (let rows = map (\<lambda>(key, v). [key, v]) mydict
           in Inr (append_rows (append_rows st1 (csvFileName @ ''.csv'') (filter encodable rows))
                     (csvFileName @ ''.csv'') (filter (\<lambda>row. \<not> encodable row) rows))))"

text \<open>\<^verbatim>\<open>re.findall('\d+', s)[0]\<close>: the first run of digits.\<close>

definition first_digits :: "string \<Rightarrow> py_exception + string" where
  "first_digits s =
     (let r = dropWhile (\<lambda>c. c \<notin> set ''0123456789'') s
      in if r = [] then Inl (Exc IndexError ''list index out of range'')
         else Inr (takeWhile (\<lambda>c. c \<in> set ''0123456789'') r))"

text \<open>
  The first \<^verbatim>\<open>try\<close> of the loop body. A \<^verbatim>\<open>URLError\<close> is answered by a sleep of 60
  seconds and nothing else: \<open>summaryHandle\<close> keeps the value it had.
\<close>

definition open_summary ::
  "(string \<Rightarrow> py_exception + handle) \<Rightarrow> string \<Rightarrow> translator \<Rightarrow> translator \<times> py_exception option" where
  "open_summary esummary pmid st =
     (case esummary pmid of
        Inr h \<Rightarrow> (st\<lparr>summaryHandle := Some h, events := events st @ [Esummary pmid]\<rparr>, None)
      | Inl (Exc cls msg) \<Rightarrow>
          if caught_by [URLError] cls
          then (st\<lparr>events := events st @ [Esummary pmid, Sleep 60]\<rparr>, None)
          else (st\<lparr>events := events st @ [Esummary pmid]\<rparr>, Some (Exc cls msg)))"

text \<open>The second \<^verbatim>\<open>try\<close>: the handle is read and the outcome is sorted.\<close>

definition read_summary ::
  "(handle \<Rightarrow> nat \<Rightarrow> py_exception + summary list) \<Rightarrow> string \<Rightarrow> translator \<Rightarrow>
   translator \<times> py_exception option" where
  "read_summary entrez_read pmid st =
     (case summaryHandle st of
        None \<Rightarrow> (st, Some (Exc UnboundLocalError ''summaryHandle''))
      | Some h \<Rightarrow>
          (let st1 = st\<lparr>events := events st @ [Read h]\<rparr>
           in case entrez_read h (count_list (events st) (Read h)) of
                Inr summaryRecord \<Rightarrow>
                  (case pmidEntrezSummaryRecordTodoi summaryRecord of
                     Inr doi \<Rightarrow>
                       (st1\<lparr>pmid_doi := dict_set (pmid_doi st1) pmid (lower (extractDOI doi))\<rparr>,
                        None)
                   | Inl (Exc cls msg) \<Rightarrow>
                       if caught_by [ValueError] cls
                       then (st1\<lparr>notFounddoi_pmids := List.insert pmid (notFounddoi_pmids st1)\<rparr>,
                             None)
                       else (st1, Some (Exc cls msg)))
              | Inl (Exc cls msg) \<Rightarrow>
                  if caught_by [UnicodeDecodeError, UnicodeEncodeError] cls
                  then (st1\<lparr>unicodeErrorpmids := List.insert pmid (unicodeErrorpmids st1)\<rparr>, None)
                  else if caught_by [RuntimeError] cls
                  then (case first_digits msg of
                          Inl e \<Rightarrow> (st1, Some e)
                        | Inr notFoundpmid \<Rightarrow>
                            if pmid = notFoundpmid
                            then (st1\<lparr>notFoundpmids := List.insert pmid (notFoundpmids st1)\<rparr>,
                                  None)
                            else (st1, Some (Exc AssertionError [])))
                  else (st1, Some (Exc cls msg))))"

text \<open>
  The end of the loop body: every 1000 identifiers and behind the last one the collections
  are written to their files and emptied, after which the code sleeps 15 seconds.
\<close>

definition flush ::
  "(string list \<Rightarrow> bool) \<Rightarrow> string \<Rightarrow> nat \<Rightarrow> translator \<Rightarrow> translator \<times> py_exception option" where
  "flush encodable doisCSVfile n_pmids st =
     (if counter st mod 1000 = 0 \<or> counter st = n_pmids
      then (case dictTocsv encodable (disk st) (pmid_doi st) doisCSVfile (Some [''PMID'', ''DOI'']) of
              Inl e \<Rightarrow> (st, Some e)
            | Inr d1 \<Rightarrow>
                (let d2 = listTocsvRows encodable d1 (unicodeErrorpmids st) ''unicode Error pmids'';
                     d3 = listTocsvRows encodable d2 (notFoundpmids st) ''not Found pmids'';
                     d4 = listTocsvRows encodable d3 (notFounddoi_pmids st) ''not Found dois''
                 in (st\<lparr>disk := d4, events := events st @ [Sleep 15], pmid_doi := [],
                        unicodeErrorpmids := [], notFoundpmids := [], notFounddoi_pmids := []\<rparr>,
                     None)))
      else (st, None))"

definition translate_one ::
  "(string \<Rightarrow> py_exception + handle) \<Rightarrow> (handle \<Rightarrow> nat \<Rightarrow> py_exception + summary list) \<Rightarrow>
   (string list \<Rightarrow> bool) \<Rightarrow> string \<Rightarrow> nat \<Rightarrow> string \<Rightarrow> translator \<Rightarrow>
   translator \<times> py_exception option" where
  "translate_one esummary entrez_read encodable doisCSVfile n_pmids pmid st =
     (case open_summary esummary pmid (st\<lparr>counter := Suc (counter st)\<rparr>) of
        (st1, Some e) \<Rightarrow> (st1, Some e)
      | (st1, None) \<Rightarrow>
          (case read_summary entrez_read pmid st1 of
             (st2, Some e) \<Rightarrow> (st2, Some e)
           | (st2, None) \<Rightarrow> flush encodable doisCSVfile n_pmids st2))"

fun translate_all ::
  "(string \<Rightarrow> py_exception + handle) \<Rightarrow> (handle \<Rightarrow> nat \<Rightarrow> py_exception + summary list) \<Rightarrow>
   (string list \<Rightarrow> bool) \<Rightarrow> string \<Rightarrow> nat \<Rightarrow> string list \<Rightarrow> translator \<Rightarrow>
   translator \<times> py_exception option" where
  "translate_all esummary entrez_read encodable doisCSVfile n_pmids [] st = (st, None)"
| "translate_all esummary entrez_read encodable doisCSVfile n_pmids (pmid # todo) st =
     (case translate_one esummary entrez_read encodable doisCSVfile n_pmids pmid st of
        (st', Some e) \<Rightarrow> (st', Some e)
      | (st', None) \<Rightarrow> translate_all esummary entrez_read encodable doisCSVfile n_pmids todo st')"

text \<open>
  The loop of \<^verbatim>\<open>pmidTodoi\<close> over the identifiers that are left to translate, entered with
  empty collections and \<open>summaryHandle\<close> unbound.
\<close>

definition pmidTodoi ::
  "(string \<Rightarrow> py_exception + handle) \<Rightarrow> (handle \<Rightarrow> nat \<Rightarrow> py_exception + summary list) \<Rightarrow>
   (string list \<Rightarrow> bool) \<Rightarrow> fs \<Rightarrow> string list \<Rightarrow> string \<Rightarrow> translator \<times> py_exception option" where
  "pmidTodoi esummary entrez_read encodable st pmids doisCSVfile =
     translate_all esummary entrez_read encodable doisCSVfile (length pmids) pmids
       \<lparr>summaryHandle = None, pmid_doi = [], unicodeErrorpmids = [], notFoundpmids = [],
        notFounddoi_pmids = [], counter = 0, disk = st, events = []\<rparr>"

section \<open>The download stage of \<^verbatim>\<open>grabViaCrossref\<close>\<close>






text \<open>
  \<^verbatim>\<open>pd.read_csv(path)[name].dropna()\<close>: the cells of the column under the header
  \<open>name\<close>, the empty ones left out.
\<close>

definition cell_at :: "string list \<Rightarrow> nat \<Rightarrow> string" where
  "cell_at row i = (if i < length row then row ! i else [])"

fun index_of :: "string \<Rightarrow> string list \<Rightarrow> nat option" where
  "index_of name [] = None"
| "index_of name (h # hs) =
     (if h = name then Some 0 else map_option Suc (index_of name hs))"

definition read_column :: "fs \<Rightarrow> string \<Rightarrow> string \<Rightarrow> py_exception + string list" where
  "read_column st path name =
     (case tables st path of
        None \<Rightarrow> Inl (Exc FileNotFoundError path)
      | Some [] \<Rightarrow> Inl (Exc EmptyDataError ''No columns to parse from file'')
      | Some (header # body) \<Rightarrow>
          (case index_of name header of
             None \<Rightarrow> Inl (Exc KeyError name)
           | Some i \<Rightarrow> Inr (filter (\<lambda>v. v \<noteq> []) (map (\<lambda>row. cell_at row i) body))))"





text \<open>
  A run is the file system together with the URLs handed to \<^verbatim>\<open>download\<close> so far, in
  order.
\<close>

type_synonym run = "fs \<times> string list"









text \<open>The URLs that the downloadable registry records.\<close>

definition recorded :: "fs \<Rightarrow> string list" where
  "recorded st =
     (case read_column st ''full text/doi/downloadable dois.csv'' ''URL'' of
        Inl e \<Rightarrow> []
      | Inr urls \<Rightarrow> urls)"

section \<open>Concrete inputs\<close>

text \<open>\<^verbatim>\<open>sys.getsizeof\<close> of a bytes object in 64-bit CPython.\<close>

definition cpython_getsizeof :: "string \<Rightarrow> int" where
  "cpython_getsizeof b = 33 + int (length b)"

definition disk0 :: fs where
  "disk0 = \<lparr>files = [''full text/doi3/pdf/10.1-x.pdf'' \<mapsto> ''0123456789''], tables = Map.empty\<rparr>"

definition short_reply :: response where
  "short_reply = \<lparr>content_type = Some ''application/pdf'', content_disposition = None,
     content = ''01234''\<rparr>"


text \<open>
  A service that answers the second identifier with the record of another one; the module's
  namespace with a client bound to \<^verbatim>\<open>cr\<close>; a service that answers with errors; a lookup
  service whose second query fails, and a handle that yields a summary at its first read.
\<close>

definition alias_service :: "nat \<Rightarrow> string \<Rightarrow> py_exception + article" where
  "alias_service n doi =
     (if doi = ''10.1/a'' then Inr \<lparr>message_DOI = ''10.1/a'', message_link = None\<rparr>
      else Inr \<lparr>message_DOI = ''10.1/c'', message_link = None\<rparr>)"

definition with_client :: "(nat \<Rightarrow> string \<Rightarrow> py_exception + article) \<Rightarrow> namespace" where
  "with_client works = module_globals(''cr'' \<mapsto> Client works)"

definition failing_service :: "nat \<Rightarrow> string \<Rightarrow> py_exception + article" where
  "failing_service n doi =
     (if doi = ''10.1/a'' then Inl (Exc RequestsHTTPError ''404 Client Error: Not Found for url'')
      else Inl (Exc TimeoutError ''timed out''))"

definition empty_disk :: fs where
  "empty_disk = \<lparr>files = Map.empty, tables = Map.empty\<rparr>"

definition second_fails :: "string \<Rightarrow> py_exception + handle" where
  "second_fails pmid =
     (if pmid = ''1'' then Inr (Handle ''1'') else Inl (Exc URLError ''timed out''))"

definition read_once ::
  "py_exception + summary list \<Rightarrow> handle \<Rightarrow> nat \<Rightarrow> py_exception + summary list" where
  "read_once again h k =
     (if k = 0 then Inr [\<lparr>DOI = Some ''10.1/one'', ArticleIds_doi = None, ELocationID = None\<rparr>]
      else again)"





section \<open>Properties of the URL normaliser\<close>

text \<open>A split has at least one piece, so its last piece exists.\<close>

lemma py_split_not_empty: "py_split sep s \<noteq> []"
proof -
  have "split_from sep cur s \<noteq> []" for cur
    by (induction sep cur s rule: split_from.induct) auto
  then show ?thesis by (simp add: py_split_def)
qed

lemma findall_cambridge_skip:
  "\<forall>i<length pre. atoms_prefix cambridge_pat (drop i (pre @ s)) = None \<Longrightarrow>
   findall_tail cambridge_pat (pre @ s) = findall_tail cambridge_pat s"
proof (induction pre)
  case Nil
  then show ?case by simp
next
  case (Cons x pre)
  from Cons.prems have "atoms_prefix cambridge_pat (drop 0 ((x # pre) @ s)) = None"
    by blast
  then have here: "findall_tail cambridge_pat ((x # pre) @ s) = findall_tail cambridge_pat (pre @ s)"
    by simp
  have "\<forall>i<length pre. atoms_prefix cambridge_pat (drop i (pre @ s)) = None"
  proof (intro allI impI)
    fix i assume "i < length pre"
    then have "Suc i < length (x # pre)" by simp
    with Cons.prems have "atoms_prefix cambridge_pat (drop (Suc i) ((x # pre) @ s)) = None"
      by blast
    then show "atoms_prefix cambridge_pat (drop i (pre @ s)) = None" by simp
  qed
  with Cons.IH here show ?case by simp
qed

lemma findall_cambridge_here:
  assumes "tail \<noteq> []" and "newline \<notin> set tail"
  shows "findall_tail cambridge_pat (''10.1017/s'' @ tail) = [tail]"
proof -
  have nl: "CHR ''.'' \<noteq> newline" by (simp add: newline_def)
  have tw: "takeWhile (\<lambda>x. x \<noteq> newline) tail = tail"
    using assms(2) by (auto simp: takeWhile_eq_all_conv)
  have "atoms_prefix cambridge_pat (''10.1017/s'' @ tail) = Some tail"
    using nl by (simp add: cambridge_pat_def)
  then show ?thesis using assms(1) by (simp add: tw Let_def)
qed

text \<open>
  Claim C10, as stated, fails: the identifier \<^verbatim>\<open>10.1017/s\<close> contains the prefix (the
  caller's test \<^verbatim>\<open>'10.1017/s' in doi\<close> holds) but nothing follows it, the group
  \<^verbatim>\<open>(.+)\<close> finds no match, and indexing the empty list of matches raises
  \<^verbatim>\<open>IndexError\<close> instead of returning a URL.
\<close>

theorem getCambridgeURL_empty_tail:
  "py_in ''10.1017/s'' ''10.1017/s'' \<and>
   getCambridgeURL ''10.1017/s'' = Inl (Exc IndexError ''list index out of range'')"
  by (simp add: getCambridgeURL_def last_item_def cambridge_pat_def)

text \<open>
  Claim C10, amended: for every identifier in which the prefix \<^verbatim>\<open>10.1017/s\<close> is followed
  by a non-empty tail without a line break, and no earlier position matches the prefix
  pattern, \<^verbatim>\<open>getCambridgeURL\<close> returns the content-viewer URL template, which ends in an
  upper-case \<^verbatim>\<open>S\<close>, with the tail appended.
\<close>

theorem getCambridgeURL_tail:
  assumes "doi = pre @ ''10.1017/s'' @ tail" and "tail \<noteq> []" and "newline \<notin> set tail"
    and "\<forall>i<length pre. atoms_prefix cambridge_pat (drop i doi) = None"
  shows "getCambridgeURL doi = Inr (cambridge_template @ tail)"
proof -
  have "findall_tail cambridge_pat doi = findall_tail cambridge_pat (''10.1017/s'' @ tail)"
    using assms(1,4) findall_cambridge_skip [of pre "''10.1017/s'' @ tail"] by simp
  also have "\<dots> = [tail]" using assms(2,3) by (rule findall_cambridge_here)
  finally show ?thesis by (simp add: getCambridgeURL_def last_item_def)
qed

theorem getCambridgeURL_tail_witness:
  "''doi:10.1017/sABCDEF'' = ''doi:'' @ ''10.1017/s'' @ ''ABCDEF'' \<and> ''ABCDEF'' \<noteq> [] \<and>
   newline \<notin> set ''ABCDEF'' \<and>
   list_all (\<lambda>i. atoms_prefix cambridge_pat (drop i ''doi:10.1017/sABCDEF'') = None) [0..<4] \<and>
   getCambridgeURL ''doi:10.1017/sABCDEF'' =
     Inr ''https://www.cambridge.org/core/services/aop-cambridge-core/content/view/SABCDEF''"
proof -
  have a: "''doi:10.1017/sABCDEF'' = ''doi:'' @ ''10.1017/s'' @ ''ABCDEF''" by simp
  have b: "''ABCDEF'' \<noteq> []" by simp
  have c: "newline \<notin> set ''ABCDEF''" by (simp add: newline_def)
  have d: "\<forall>i<length ''doi:''. atoms_prefix cambridge_pat (drop i ''doi:10.1017/sABCDEF'') = None"
    by (simp add: cambridge_pat_def All_less_Suc)
  have e: "list_all (\<lambda>i. atoms_prefix cambridge_pat (drop i ''doi:10.1017/sABCDEF'') = None) [0..<4]"
    by (simp add: cambridge_pat_def upt_rec)
  show ?thesis using getCambridgeURL_tail [OF a b c d] b c e by (simp add: cambridge_template_def)
qed

lemma getCambridgeURL_spec_example:
  "getCambridgeURL ''10.1017/sABCDEF'' =
     Inr ''https://www.cambridge.org/core/services/aop-cambridge-core/content/view/SABCDEF''"
  by (simp add: getCambridgeURL_def last_item_def cambridge_pat_def cambridge_template_def
      newline_def)

section \<open>Properties of the download dispatcher and the registries\<close>

lemma files_append_row [simp]: "files (append_row st path row) = files st"
  by (simp add: append_row_def)

lemma files_checkHeaders: "checkHeaders st f h = Inr st' \<Longrightarrow> files st' = files st"
  by (auto simp: checkHeaders_def split: if_splits)

lemma files_writecsvRow: "writecsvRow encodable st f row h = Inr st' \<Longrightarrow> files st' = files st"
  by (auto simp: writecsvRow_def Let_def dest: files_checkHeaders split: sum.splits if_splits)

lemma files_handle_download:
  "files (fst (handle_download caught encodable st doi url e)) = files st"
  by (cases e) (auto simp: handle_download_def dest: files_writecsvRow split: sum.splits)

lemma files_store:
  "files (fst (store getsizeof encodable st doi url ext body)) p =
     (if p = createFile doi ext \<and>
         getsizeof body - 33 >
           (case files st (createFile doi ext) of None \<Rightarrow> 0 | Some old \<Rightarrow> int (length old))
      then Some body else files st p)"
  by (auto simp: store_def Let_def dest: files_writecsvRow split: sum.splits)

lemma files_after_store:
  "files (fst (case store getsizeof encodable st doi url ext body of
                 (st', None) \<Rightarrow> (st', None)
               | (st', Some e) \<Rightarrow> handle_download caught encodable st' doi url e)) =
   files (fst (store getsizeof encodable st doi url ext body))"
  by (cases "store getsizeof encodable st doi url ext body")
     (auto simp: files_handle_download split: option.splits)

lemma files_downloadViaRequests:
  "files (fst (downloadViaRequests getsizeof encodable st doi url (Inr r))) p =
     (case decideExtension (requests_dict r url) of
        Inl e \<Rightarrow> files st p
      | Inr ext \<Rightarrow> files (fst (store getsizeof encodable st doi url ext (content r))) p)"
  by (simp add: downloadViaRequests_def files_handle_download files_after_store
      split: sum.splits)

lemma files_downloadViaUrlLib:
  "files (fst (downloadViaUrlLib getsizeof encodable st doi url (Inr r))) p =
     (case decideExtension (urllib_dict r url) of
        Inl e \<Rightarrow> files st p
      | Inr ext \<Rightarrow> files (fst (store getsizeof encodable st doi url ext (content r))) p)"
  by (simp add: downloadViaUrlLib_def files_handle_download files_after_store
      split: sum.splits)

lemma files_store_kept:
  assumes "files st p = Some old" and "getsizeof body - 33 \<le> int (length old)"
  shows "files (fst (store getsizeof encodable st doi url ext body)) p = Some old"
  using assms by (auto simp: files_store)

text \<open>The file of an artifact is never one of the two registries that a download writes.\<close>

lemma createFile_not_registry:
  "createFile doi ext \<noteq> ''full text/doi/downloadable dois.csv'' \<and>
   createFile doi ext \<noteq> ''full text/doi/bad urls.csv''"
  by (simp add: createFile_def)

text \<open>
  Claim C5: in both download paths, a file that exists with \<open>N\<close> bytes keeps its bytes when
  the measured size of the fetched body less the constant 33 is not strictly greater than
  \<open>N\<close>; it is overwritten only when the measured size less 33 exceeds \<open>N\<close>. This holds for
  every file \<open>p\<close> of bytes, the one named after the identifier and the extension included.
\<close>

theorem download_keeps_file:
  assumes "files st p = Some old"
  shows "(getsizeof (content r) - 33 \<le> int (length old) \<longrightarrow>
            files (fst (downloadViaRequests getsizeof encodable st doi url (Inr r))) p = Some old \<and>
            files (fst (downloadViaUrlLib getsizeof encodable st doi url (Inr r))) p = Some old) \<and>
         (files (fst (downloadViaRequests getsizeof encodable st doi url (Inr r))) p \<noteq> Some old \<or>
          files (fst (downloadViaUrlLib getsizeof encodable st doi url (Inr r))) p \<noteq> Some old \<longrightarrow>
            getsizeof (content r) - 33 > int (length old))"
proof -
  have kept: "files (fst (downloadViaRequests getsizeof encodable st doi url (Inr r))) p = Some old \<and>
      files (fst (downloadViaUrlLib getsizeof encodable st doi url (Inr r))) p = Some old"
    if le: "getsizeof (content r) - 33 \<le> int (length old)"
  proof
    show "files (fst (downloadViaRequests getsizeof encodable st doi url (Inr r))) p = Some old"
      using assms le by (simp add: files_downloadViaRequests files_store_kept split: sum.splits)
    show "files (fst (downloadViaUrlLib getsizeof encodable st doi url (Inr r))) p = Some old"
      using assms le by (simp add: files_downloadViaUrlLib files_store_kept split: sum.splits)
  qed
  show ?thesis
  proof (cases "getsizeof (content r) - 33 \<le> int (length old)")
    case True
    with kept show ?thesis by simp
  next
    case False
    then show ?thesis by simp
  qed
qed

theorem download_keeps_file_witness:
  "files disk0 ''full text/doi3/pdf/10.1-x.pdf'' = Some ''0123456789'' \<and>
   cpython_getsizeof (content short_reply) - 33 \<le> int (length ''0123456789'') \<and>
   files (fst (downloadViaRequests cpython_getsizeof (\<lambda>row. True) disk0 ''10.1/x''
      ''http://host/x'' (Inr short_reply))) ''full text/doi3/pdf/10.1-x.pdf'' = Some ''0123456789'' \<and>
   files (fst (downloadViaUrlLib cpython_getsizeof (\<lambda>row. True) disk0 ''10.1/x''
      ''http://host/x'' (Inr short_reply))) ''full text/doi3/pdf/10.1-x.pdf'' = Some ''0123456789''"
proof -
  have f: "files disk0 ''full text/doi3/pdf/10.1-x.pdf'' = Some ''0123456789''"
    by (simp add: disk0_def)
  have le: "cpython_getsizeof (content short_reply) - 33 \<le> int (length ''0123456789'')"
    by (simp add: cpython_getsizeof_def short_reply_def)
  from download_keeps_file [OF f, of cpython_getsizeof short_reply "\<lambda>row. True" "''10.1/x''"
      "''http://host/x''"] le f
  show ?thesis by blast
qed

text \<open>When the measured size less 33 exceeds the size on disk, the file is replaced.\<close>

lemma download_overwrites:
  assumes "decideExtension (requests_dict r url) = Inr ext"
    and "files st (createFile doi ext) = Some old"
    and "getsizeof (content r) - 33 > int (length old)"
  shows "files (fst (downloadViaRequests getsizeof encodable st doi url (Inr r)))
           (createFile doi ext) = Some (content r)"
  using assms by (simp add: files_downloadViaRequests files_store)

lemma createFile_example:
  "decideExtension (requests_dict short_reply ''http://host/x'') = Inr (Some ''pdf'') \<and>
   createFile ''10.1/x'' (Some ''pdf'') = ''full text/doi3/pdf/10.1-x.pdf''"
  by (simp add: decideExtension_def requests_dict_def short_reply_def dict_get_def truthy_def
      subtype_def py_split_def last_item_def first_item_def overrides_def createFile_def
      multireplace_def notAllowedCharReplacements_def dquote_def)











section \<open>Properties of the identifier translator and the classifier\<close>

text \<open>
  Claim C3 at a result with two link sets whose first linked identifier is
  \<^verbatim>\<open>1234567\<close>: the code indexes the identifier once more (\<^verbatim>\<open>['Id'][0]\<close>), so the row
  holds its first character followed by the marker, not the identifier followed by the
  marker.
\<close>

theorem pmidTopmcid_first_character:
  "pmcid_of [[[''1234567''], [''7654321'']]] = Inr ''1MoreThanPMCID'' \<and>
   pmidTopmcid (\<lambda>pmid. Inr [[[''1234567''], [''7654321'']]]) (\<lambda>row. True) ''pmcids''
       [''42''] empty_disk =
     Inr (empty_disk\<lparr>tables :=
       [''pmcids.csv'' \<mapsto> [[''PMID'', ''PMCID''], [''42'', ''1MoreThanPMCID'']]]\<rparr>)"
  by (simp add: pmidTopmcid_def pmcid_of_def first_item_def first_link_id_def first_char_def
      writecsvRow_def checkHeaders_def isfile_def append_row_def empty_disk_def)

text \<open>On an empty list the function raises before the loop.\<close>

lemma pmidTopmcid_empty_list:
  "pmidTopmcid elink encodable csvFile [] st = Inl (Exc IndexError ''list index out of range'')"
  by (simp add: pmidTopmcid_def first_item_def)

text \<open>The two other branches record what the claim says.\<close>

lemma pmcid_of_none: "pmcid_of ([] # rest) = Inr ''NoPMCID''"
  by (simp add: pmcid_of_def first_item_def)

lemma pmcid_of_one: "pmcid_of ([ident # links] # rest) = Inr ident"
  by (simp add: pmcid_of_def first_item_def first_link_id_def)

text \<open>
  Claim C4 at the dictionary of its own example, which has the key
  \<^verbatim>\<open>contentDisposition\<close> only: the missing \<^verbatim>\<open>url\<close> is read as \<^verbatim>\<open>None\<close>, the extension
  \<^verbatim>\<open>doc\<close> is found, and the test \<^verbatim>\<open>'api.elsevier' in url\<close> raises \<^verbatim>\<open>TypeError\<close>.
\<close>

theorem decideExtension_without_url:
  \<open>getExtension (Some ''attachment; filename="x.doc"'') = Inr (Some ''doc'') \<and>
   decideExtension [''contentDisposition'' \<mapsto> Some ''attachment; filename="x.doc"''] =
     Inl (Exc TypeError ''argument of type NoneType is not iterable'')\<close>
proof -
  have \<open>getExtension (Some ''attachment; filename="x.doc"'') = Inr (Some ''doc'')\<close>
    by code_simp
  then show ?thesis by (simp add: decideExtension_def dict_get_def truthy_def)
qed

text \<open>With a URL in the dictionary the examples of the specification come out as stated.\<close>

lemma decideExtension_with_url:
  \<open>decideExtension [''contentDisposition'' \<mapsto> Some ''attachment; filename="x.doc"'',
      ''url'' \<mapsto> Some ''http://host/get''] = Inr (Some ''doc'')\<close>
  by code_simp

text \<open>
  A content-disposition header that is present decides alone: when it carries no file name
  the result is \<^verbatim>\<open>None\<close>, and the URL is not looked at.
\<close>

lemma decideExtension_disposition_without_hint:
  "decideExtension [''contentDisposition'' \<mapsto> Some ''inline'',
      ''url'' \<mapsto> Some ''http://host/file.pdf''] = Inr None"
  by code_simp

lemma decideExtension_declared_type_wins:
  "decideExtension [''contentType'' \<mapsto> Some ''application/pdf'',
      ''url'' \<mapsto> Some ''http://host/file.htm''] = Inr (Some ''pdf'')"
  by code_simp

lemma decideExtension_vendor_override:
  "decideExtension [''contentType'' \<mapsto> None, ''crContentType'' \<mapsto> Some ''text/plain'',
      ''url'' \<mapsto> Some ''https://api.elsevier.com/x.html''] = Inr (Some ''txt'')"
  by code_simp

section \<open>Properties of the resolution loop\<close>

lemma lookup_cr_module: "lookup module_globals ''cr'' = Inl (Exc NameError ''name cr is not defined'')"
  by (simp add: lookup_def module_globals_def)

lemma query_all_unbound:
  "todo \<noteq> [] \<Longrightarrow> query_all module_globals todo st = (st, Some (Exc NameError ''name cr is not defined''))"
  by (cases todo) (simp_all add: lookup_cr_module)

lemma pass_unbound:
  assumes "firstTime st" and "dois (filter_processed st) \<noteq> []"
  shows "pass module_globals st =
     ((filter_processed st)\<lparr>lenOfIn := Some (length (dois (filter_processed st))), firstTime := False\<rparr>,
      Some (Raised (Exc NameError ''name cr is not defined'')))"
proof -
  have ft: "firstTime (filter_processed st)" using assms(1) by (simp add: filter_processed_def Let_def)
  show ?thesis using ft assms(2) by (simp add: pass_def Let_def query_all_unbound)
qed

lemma pass_stalled:
  assumes "\<not> firstTime st" and "lenOfIn st = Some (length (dois (filter_processed st)))"
  shows "snd (pass globals st) = Some Stalled \<and>
         out (fst (pass globals st)) = out st @ [Remaining (length (dois (filter_processed st)))]"
  using assms by (simp add: pass_def Let_def filter_processed_def)

lemma dois_filter_processed_empty: "dois st = [] \<Longrightarrow> dois (filter_processed st) = []"
  by (simp add: filter_processed_def Let_def)

text \<open>
  Claim C2: for every instance, whatever \<^verbatim>\<open>__init__\<close> was given, the query step over a
  non-empty pending set raises \<^verbatim>\<open>NameError\<close> in every state, because the name \<^verbatim>\<open>cr\<close> is not
  bound in the namespace the module leaves behind. Hence a call of \<^verbatim>\<open>grabViaCrossref\<close>
  whose first pass has that pending set ends in that pass with \<^verbatim>\<open>NameError\<close>, no query
  made and no record added: no identifier is ever resolved.
\<close>

theorem cr_unbound:
  assumes "todo \<noteq> []"
  shows "query_all (snd (init Crossref module_globals pmidsListOrCSVfile email)) todo st =
           (st, Some (Exc NameError ''name cr is not defined'')) \<and>
         (dois (filter_processed (start ds arts nf)) = todo \<longrightarrow>
            (\<exists>st'. resolve (Suc n) (snd (init Crossref module_globals pmidsListOrCSVfile email))
                     (start ds arts nf) =
                   Some (st', Raised (Exc NameError ''name cr is not defined'')) \<and>
                   articles st' = arts \<and> calls st' = 0))"
proof -
  let ?st = "start ds arts nf"
  have g: "snd (init Crossref module_globals pmidsListOrCSVfile email) = module_globals"
    by (simp add: init_def)
  have step: "query_all module_globals todo st = (st, Some (Exc NameError ''name cr is not defined''))"
    using assms by (rule query_all_unbound)
  have run: "\<exists>st'. resolve (Suc n) module_globals ?st =
        Some (st', Raised (Exc NameError ''name cr is not defined'')) \<and>
        articles st' = arts \<and> calls st' = 0"
    if pending: "dois (filter_processed ?st) = todo"
  proof -
    have ft: "firstTime ?st" by (simp add: start_def)
    from pending assms have p: "dois (filter_processed ?st) \<noteq> []" by simp
    then have ne: "dois ?st \<noteq> []" using dois_filter_processed_empty by blast
    have "resolve (Suc n) module_globals ?st =
        Some ((filter_processed ?st)\<lparr>lenOfIn := Some (length (dois (filter_processed ?st))),
                firstTime := False\<rparr>, Raised (Exc NameError ''name cr is not defined''))"
      using ne by (simp add: pass_unbound [OF ft p])
    moreover have "articles (filter_processed ?st) = arts" "calls (filter_processed ?st) = 0"
      by (simp_all add: filter_processed_def Let_def start_def)
    ultimately show ?thesis by simp
  qed
  show ?thesis using step run by (simp add: g)
qed

theorem cr_unbound_witness:
  "[''10.1/a''] \<noteq> [] \<and> dois (filter_processed (start [''10.1/a''] [] [])) = [''10.1/a''] \<and>
   query_all (snd (init (\<lambda>email. Client alias_service) module_globals [''1''] ''a@b.c''))
       [''10.1/a''] (start [''10.1/a''] [] []) =
     (start [''10.1/a''] [] [], Some (Exc NameError ''name cr is not defined'')) \<and>
   (\<exists>st'. resolve (Suc 0) (snd (init (\<lambda>email. Client alias_service) module_globals [''1''] ''a@b.c''))
             (start [''10.1/a''] [] []) = Some (st', Raised (Exc NameError ''name cr is not defined'')) \<and>
           articles st' = [] \<and> calls st' = 0)"
proof -
  have a: "[''10.1/a''] \<noteq> ([] :: string list)" by simp
  have b: "dois (filter_processed (start [''10.1/a''] [] [])) = [''10.1/a'']"
    by (simp add: filter_processed_def start_def Let_def collecteddois_def lower_def lower_char_def)
  from cr_unbound [OF a, of "\<lambda>email. Client alias_service" "[''1'']" "''a@b.c''"
      "start [''10.1/a''] [] []" "[''10.1/a'']" "[]" "[]" 0] b
  show ?thesis by simp
qed

text \<open>
  In the module as it stands the loop cannot get beyond its first query. A pass that does
  not end the loop has found nothing pending, so it leaves \<open>dois\<close> empty and the loop
  condition fails next; the loop therefore ends within two passes, whatever the state, and
  from the entry state it never ends through the stall test. Two consecutive passes with a
  non-empty pending set do not occur, and no query reaches the service, so none raises a
  transport error.
\<close>

lemma pass_module_empties:
  assumes "pass module_globals st = (st', None)"
  shows "dois st' = []"
proof (rule ccontr)
  assume ne: "dois st' \<noteq> []"
  let ?st1 = "filter_processed st"
  let ?st2 = "if firstTime ?st1
      then ?st1\<lparr>lenOfIn := Some (length (dois ?st1)), firstTime := False\<rparr> else ?st1"
  show False
  proof (cases "dois ?st2 = []")
    case True
    with assms have "st' = ?st2"
      by (auto simp: pass_def Let_def split: if_splits)
    with True ne show False by simp
  next
    case False
    from query_all_unbound [OF False, of ?st2] assms show False
      by (auto simp: pass_def Let_def split: if_splits)
  qed
qed

lemma resolve_module_ends: "\<exists>r. resolve (Suc (Suc n)) module_globals st = Some r"
proof (cases "pass module_globals st")
  case (Pair st' eo)
  show ?thesis
  proof (cases eo)
    case None
    with Pair pass_module_empties have "dois st' = []" by blast
    with Pair None show ?thesis by simp
  next
    case (Some e)
    with Pair show ?thesis by simp
  qed
qed

lemma start_never_stalls:
  "resolve n module_globals (start ds arts nf) \<noteq> Some (st', Stalled)"
proof (cases n)
  case 0
  then show ?thesis by simp
next
  case (Suc m)
  let ?st = "start ds arts nf"
  have ft: "firstTime (filter_processed ?st)" by (simp add: start_def filter_processed_def Let_def)
  obtain st1 eo where p: "pass module_globals ?st = (st1, eo)" by (metis surj_pair)
  have ns: "eo \<noteq> Some Stalled" using p ft
    by (auto simp: pass_def Let_def split: prod.splits option.splits)
  show ?thesis
  proof (cases eo)
    case None
    with p pass_module_empties have e: "dois st1 = []" by blast
    show ?thesis
    proof (cases m)
      case 0
      with Suc p None show ?thesis by simp
    next
      case (Suc k)
      with \<open>n = Suc m\<close> p None e show ?thesis by simp
    qed
  next
    case (Some e)
    with Suc p ns show ?thesis by auto
  qed
qed

text \<open>
  The lemmas that follow describe lines 98 to 116 in a namespace in which a client is bound
  to the global name \<^verbatim>\<open>cr\<close>. The module does not produce such a namespace; they record
  what the stall test and the \<^verbatim>\<open>except\<close> branch would do in one.
\<close>

lemma after_passes_2:
  "after_passes 2 globals st = fst (pass globals (fst (pass globals st)))"
  by (simp add: numeral_2_eq_2)

lemma after_passes_3:
  "after_passes 3 globals st = fst (pass globals (fst (pass globals (fst (pass globals st)))))"
  by (simp add: numeral_3_eq_3)

lemma set_collecteddois:
  "set (collecteddois st) = (\<lambda>i. lower (extractDOI i)) ` message_DOI ` set (articles st)"
  by (simp add: collecteddois_def)

lemma lookup_with_client: "lookup (with_client works) ''cr'' = Inr (Client works)"
  by (simp add: lookup_def with_client_def)

lemma alias_pass:
  assumes "\<not> firstTime st" and "lenOfIn st = Some 2" and "notFounddois st = []"
    and "dois st = [''10.1/a'', ''10.1/b''] \<or> dois st = [''10.1/b'']"
    and "message_DOI ` set (articles st) = {''10.1/a'', ''10.1/c''}"
  shows "\<exists>st'. pass (with_client alias_service) st = (st', None) \<and> \<not> firstTime st' \<and>
           lenOfIn st' = Some 2 \<and> notFounddois st' = [] \<and> dois st' = [''10.1/b''] \<and>
           message_DOI ` set (articles st') = {''10.1/a'', ''10.1/c''}"
proof -
  have col: "set (collecteddois st) = {''10.1/a'', ''10.1/c''}"
    by (simp add: set_collecteddois assms(5) extractDOI_def py_split_def lower_def lower_char_def)
  have low: "remdups (map lower (dois st)) = dois st"
    using assms(4) by (auto simp: lower_def lower_char_def)
  have fp: "filter_processed st = st\<lparr>notFounddois := [], dois := [''10.1/b'']\<rparr>"
    using assms(3,4) by (auto simp: filter_processed_def Let_def col low)
  have q: "query_all (with_client alias_service) [''10.1/b''] (st\<lparr>notFounddois := [], dois := [''10.1/b'']\<rparr>) =
      (st\<lparr>notFounddois := [], dois := [''10.1/b''],
          articles := articles st @ [\<lparr>message_DOI = ''10.1/c'', message_link = None\<rparr>],
          calls := Suc (calls st)\<rparr>, None)"
    by (simp add: lookup_with_client alias_service_def)
  have "pass (with_client alias_service) st =
      (st\<lparr>notFounddois := [], dois := [''10.1/b''],
          articles := articles st @ [\<lparr>message_DOI = ''10.1/c'', message_link = None\<rparr>],
          calls := Suc (calls st)\<rparr>, None)"
    using assms(1,2) by (simp add: pass_def Let_def fp q del: query_all.simps)
  then show ?thesis using assms(1,2,5) by auto
qed

lemma alias_never_ends:
  assumes "\<not> firstTime st" and "lenOfIn st = Some 2" and "notFounddois st = []"
    and "dois st = [''10.1/a'', ''10.1/b''] \<or> dois st = [''10.1/b'']"
    and "message_DOI ` set (articles st) = {''10.1/a'', ''10.1/c''}"
  shows "resolve n (with_client alias_service) st = None"
  using assms
proof (induction n arbitrary: st)
  case 0
  show ?case by simp
next
  case (Suc n)
  from alias_pass [OF Suc.prems] obtain st' where
    p: "pass (with_client alias_service) st = (st', None)" and
    inv: "\<not> firstTime st'" "lenOfIn st' = Some 2" "notFounddois st' = []"
      "dois st' = [''10.1/b'']" "message_DOI ` set (articles st') = {''10.1/a'', ''10.1/c''}"
    by blast
  from Suc.prems(4) have "dois st \<noteq> []" by auto
  then have "resolve (Suc n) (with_client alias_service) st = resolve n (with_client alias_service) st'"
    by (simp add: p)
  also have "\<dots> = None" using inv by (intro Suc.IH) auto
  finally show ?case .
qed

lemma alias_first_pass:
  "pass (with_client alias_service) (start [''10.1/a'', ''10.1/b''] [] []) =
     (\<lparr>dois = [''10.1/a'', ''10.1/b''],
       articles = [\<lparr>message_DOI = ''10.1/a'', message_link = None\<rparr>,
                   \<lparr>message_DOI = ''10.1/c'', message_link = None\<rparr>],
       notFounddois = [], firstTime = False, lenOfIn = Some 2, calls = 2, out = []\<rparr>, None)"
  by (simp add: pass_def Let_def filter_processed_def start_def collecteddois_def lower_def
      lower_char_def lookup_with_client alias_service_def)

lemma alias_second_pass:
  "pass (with_client alias_service)
     \<lparr>dois = [''10.1/a'', ''10.1/b''],
       articles = [\<lparr>message_DOI = ''10.1/a'', message_link = None\<rparr>,
                   \<lparr>message_DOI = ''10.1/c'', message_link = None\<rparr>],
       notFounddois = [], firstTime = False, lenOfIn = Some 2, calls = 2, out = []\<rparr> =
     (\<lparr>dois = [''10.1/b''],
       articles = [\<lparr>message_DOI = ''10.1/a'', message_link = None\<rparr>,
                   \<lparr>message_DOI = ''10.1/c'', message_link = None\<rparr>,
                   \<lparr>message_DOI = ''10.1/c'', message_link = None\<rparr>],
       notFounddois = [], firstTime = False, lenOfIn = Some 2, calls = 3, out = []\<rparr>, None)"
  by (simp add: pass_def Let_def filter_processed_def collecteddois_def lower_def
      lower_char_def lookup_with_client alias_service_def extractDOI_def py_split_def)

lemma alias_third_pass:
  "pass (with_client alias_service)
     \<lparr>dois = [''10.1/b''],
       articles = [\<lparr>message_DOI = ''10.1/a'', message_link = None\<rparr>,
                   \<lparr>message_DOI = ''10.1/c'', message_link = None\<rparr>,
                   \<lparr>message_DOI = ''10.1/c'', message_link = None\<rparr>],
       notFounddois = [], firstTime = False, lenOfIn = Some 2, calls = 3, out = []\<rparr> =
     (\<lparr>dois = [''10.1/b''],
       articles = [\<lparr>message_DOI = ''10.1/a'', message_link = None\<rparr>,
                   \<lparr>message_DOI = ''10.1/c'', message_link = None\<rparr>,
                   \<lparr>message_DOI = ''10.1/c'', message_link = None\<rparr>,
                   \<lparr>message_DOI = ''10.1/c'', message_link = None\<rparr>],
       notFounddois = [], firstTime = False, lenOfIn = Some 2, calls = 4, out = []\<rparr>, None)"
  by (simp add: pass_def Let_def filter_processed_def collecteddois_def lower_def
      lower_char_def lookup_with_client alias_service_def extractDOI_def py_split_def)

text \<open>
  Two identifiers, for the second of which the service returns a record under another
  identifier: the second and the third pass both leave one identifier pending, the size
  test of the third pass does not break the loop (it compares with the size of the first
  pass, 2), and the loop does not end, whatever the fuel.
\<close>

lemma alias_run_never_ends:
  "length (dois (after_passes 2 (with_client alias_service) (start [''10.1/a'', ''10.1/b''] [] []))) = 1 \<and>
   length (dois (after_passes 3 (with_client alias_service) (start [''10.1/a'', ''10.1/b''] [] []))) = 1 \<and>
   snd (pass (with_client alias_service)
          (after_passes 2 (with_client alias_service) (start [''10.1/a'', ''10.1/b''] [] []))) = None \<and>
   (\<forall>n. resolve n (with_client alias_service) (start [''10.1/a'', ''10.1/b''] [] []) = None)"
proof -
  have never: "resolve n (with_client alias_service) (start [''10.1/a'', ''10.1/b''] [] []) = None" for n
  proof (cases n)
    case 0
    then show ?thesis by simp
  next
    case (Suc m)
    have "dois (start [''10.1/a'', ''10.1/b''] [] []) \<noteq> []" by (simp add: start_def)
    then have "resolve (Suc m) (with_client alias_service) (start [''10.1/a'', ''10.1/b''] [] []) =
        resolve m (with_client alias_service)
          \<lparr>dois = [''10.1/a'', ''10.1/b''],
           articles = [\<lparr>message_DOI = ''10.1/a'', message_link = None\<rparr>,
                       \<lparr>message_DOI = ''10.1/c'', message_link = None\<rparr>],
           notFounddois = [], firstTime = False, lenOfIn = Some 2, calls = 2, out = []\<rparr>"
      by (simp add: alias_first_pass)
    also have "\<dots> = None" by (rule alias_never_ends) auto
    finally show ?thesis using Suc by simp
  qed
  have two: "after_passes 2 (with_client alias_service) (start [''10.1/a'', ''10.1/b''] [] []) =
      \<lparr>dois = [''10.1/b''],
       articles = [\<lparr>message_DOI = ''10.1/a'', message_link = None\<rparr>,
                   \<lparr>message_DOI = ''10.1/c'', message_link = None\<rparr>,
                   \<lparr>message_DOI = ''10.1/c'', message_link = None\<rparr>],
       notFounddois = [], firstTime = False, lenOfIn = Some 2, calls = 3, out = []\<rparr>"
    by (simp add: after_passes_2 alias_first_pass alias_second_pass)
  have three: "length (dois (after_passes 3 (with_client alias_service)
      (start [''10.1/a'', ''10.1/b''] [] []))) = 1"
    by (simp add: after_passes_3 alias_first_pass alias_second_pass alias_third_pass)
  show ?thesis using never two three by (simp add: alias_third_pass)
qed

text \<open>
  Two identifiers, the first answered by a not-found error and the second by a time-out:
  the time-out is raised again and ends the loop in the first pass; the first identifier,
  though in the not-found set, has not been written to the registry.
\<close>

lemma timeout_ends_run:
  "resolve_and_record (Suc n) (with_client failing_service) (\<lambda>row. True) empty_disk
     (start [''10.1/a'', ''10.1/b''] [] []) =
   Some (empty_disk,
         \<lparr>dois = [''10.1/a'', ''10.1/b''], articles = [], notFounddois = [''10.1/a''],
          firstTime = False, lenOfIn = Some 2, calls = 2, out = [Printed ''10.1/b'']\<rparr>,
         Raised (Exc TimeoutError ''timed out''))"
  by (simp add: resolve_and_record_def pass_def Let_def filter_processed_def start_def
      collecteddois_def lower_def lower_char_def lookup_with_client failing_service_def
      crossref_caught_def caught_by_def subclass_of_def)

text \<open>Without a transient error the not-found identifier is written and not queried again.\<close>

lemma not_found_recorded:
  "resolve_and_record (Suc (Suc (Suc n)))
     (with_client (\<lambda>k doi. Inl (Exc RequestsHTTPError ''404 Client Error: Not Found for url'')))
     (\<lambda>row. True) empty_disk (start [''10.1/a''] [] []) =
   Some (empty_disk\<lparr>tables := [''full text/doi/dois notFoundin crossRef.csv'' \<mapsto> [[''10.1/a'']]]\<rparr>,
         \<lparr>dois = [], articles = [], notFounddois = [''10.1/a''],
          firstTime = False, lenOfIn = Some 1, calls = 1, out = []\<rparr>,
         Finished)"
  by (simp add: resolve_and_record_def pass_def Let_def filter_processed_def start_def
      collecteddois_def lower_def lower_char_def lookup_with_client
      crossref_caught_def caught_by_def subclass_of_def listTocsvRows_def append_rows_def
      empty_disk_def extractDOI_def py_split_def)

section \<open>Properties of \<^verbatim>\<open>pmidTodoi\<close>\<close>

lemma read_summary_events:
  "summaryHandle s = Some h \<Longrightarrow> events (fst (read_summary rd pmid s)) = events s @ [Read h]"
  by (auto simp: read_summary_def Let_def split: sum.splits py_exception.splits)

lemma flush_events: "\<exists>later. events (fst (flush encodable f t s)) = events s @ later"
  by (auto simp: flush_def Let_def split: sum.splits)

lemma translate_one_stale:
  assumes "esummary pmid = Inl (Exc URLError msg)" and "summaryHandle s = Some h"
  shows "\<exists>later. events (fst (translate_one esummary rd encodable f t pmid s)) =
           events s @ [Esummary pmid, Sleep 60, Read h] @ later"
proof -
  let ?s1 = "s\<lparr>counter := Suc (counter s), events := events s @ [Esummary pmid, Sleep 60]\<rparr>"
  have o: "open_summary esummary pmid (s\<lparr>counter := Suc (counter s)\<rparr>) = (?s1, None)"
    using assms(1) by (simp add: open_summary_def caught_by_def subclass_of_def)
  obtain s2 eo where r: "read_summary rd pmid ?s1 = (s2, eo)" by force
  have "summaryHandle ?s1 = Some h" using assms(2) by simp
  from read_summary_events [OF this, of rd pmid] r
  have e2: "events s2 = events s @ [Esummary pmid, Sleep 60, Read h]" by simp
  show ?thesis
  proof (cases eo)
    case None
    from flush_events [of encodable f t s2] obtain later
      where "events (fst (flush encodable f t s2)) = events s2 @ later" by blast
    with None e2 show ?thesis by (simp add: translate_one_def o r)
  next
    case (Some e)
    with e2 show ?thesis by (simp add: translate_one_def o r)
  qed
qed

text \<open>
  Claim C9 at a query that raises \<^verbatim>\<open>URLError\<close>. For a first identifier the code sleeps
  and then reads \<open>summaryHandle\<close>, which is unbound: the run ends with an exception after
  one query. For a second identifier the code sleeps and then reads the handle of the first
  identifier again. In neither case is the query repeated.
\<close>

theorem no_retry_after_URLError:
  "events (fst (pmidTodoi (\<lambda>pmid. Inl (Exc URLError ''timed out'')) entrez_read encodable st
      [''1''] ''dois'')) = [Esummary ''1'', Sleep 60] \<and>
   snd (pmidTodoi (\<lambda>pmid. Inl (Exc URLError ''timed out'')) entrez_read encodable st
      [''1''] ''dois'') = Some (Exc UnboundLocalError ''summaryHandle'') \<and>
   take 5 (events (fst (pmidTodoi second_fails (read_once again) encodable st
      [''1'', ''2''] ''dois''))) =
     [Esummary ''1'', Read (Handle ''1''), Esummary ''2'', Sleep 60, Read (Handle ''1'')]"
proof -
  have one: "pmidTodoi (\<lambda>pmid. Inl (Exc URLError ''timed out'')) entrez_read encodable st
      [''1''] ''dois'' =
      (\<lparr>summaryHandle = None, pmid_doi = [], unicodeErrorpmids = [], notFoundpmids = [],
        notFounddoi_pmids = [], counter = 1, disk = st, events = [Esummary ''1'', Sleep 60]\<rparr>,
       Some (Exc UnboundLocalError ''summaryHandle''))"
    by (simp add: pmidTodoi_def translate_one_def open_summary_def read_summary_def
        caught_by_def subclass_of_def)
  let ?after = "\<lparr>summaryHandle = Some (Handle ''1''), pmid_doi = [(''1'', ''10.1/one'')],
        unicodeErrorpmids = [], notFoundpmids = [], notFounddoi_pmids = [], counter = Suc 0,
        disk = st, events = [Esummary ''1'', Read (Handle ''1'')]\<rparr>"
  have first: "translate_one second_fails (read_once again) encodable ''dois'' (Suc (Suc 0)) ''1''
      \<lparr>summaryHandle = None, pmid_doi = [], unicodeErrorpmids = [], notFoundpmids = [],
        notFounddoi_pmids = [], counter = 0, disk = st, events = []\<rparr> = (?after, None)"
    by (simp add: translate_one_def open_summary_def read_summary_def second_fails_def
        read_once_def pmidEntrezSummaryRecordTodoi_def first_item_def truthy_def flush_def
        extractDOI_def py_split_def lower_def lower_char_def Let_def)
  have run: "fst (pmidTodoi second_fails (read_once again) encodable st [''1'', ''2''] ''dois'') =
      fst (translate_one second_fails (read_once again) encodable ''dois'' (Suc (Suc 0)) ''2'' ?after)"
    by (simp add: pmidTodoi_def first split: prod.splits option.splits)
  have sf: "second_fails ''2'' = Inl (Exc URLError ''timed out'')" by (simp add: second_fails_def)
  have sh: "summaryHandle ?after = Some (Handle ''1'')" by simp
  from translate_one_stale [of second_fails "''2''" "''timed out''" ?after "Handle ''1''"
      "read_once again" encodable "''dois''" "Suc (Suc 0)", OF sf sh]
  obtain later where "events (fst (translate_one second_fails (read_once again) encodable
      ''dois'' (Suc (Suc 0)) ''2'' ?after)) =
      [Esummary ''1'', Read (Handle ''1'')] @ [Esummary ''2'', Sleep 60, Read (Handle ''1'')] @ later"
    by auto
  then show ?thesis using one by (simp add: run)
qed

section \<open>Properties of the download stage\<close>

lemma recorded_files [simp]: "recorded (st\<lparr>files := f\<rparr>) = recorded st"
  by (simp add: recorded_def read_column_def)























end
